theory Spec2Isabelle
  imports Main
begin

section \<open>Data model of \<open>src/components/Frame.tsx\<close>\<close>

text \<open>
  The interfaces \<open>SpotifyTrack\<close> and \<open>SpotifyCurrentlyPlaying\<close> of the source.
  A value of type \<open>SpotifyTrack | null\<close> is a \<open>spotify_track option\<close>.
\<close>

record spotify_album =
  album_name :: string
  images :: "string list"

record spotify_track =
  track_id :: string
  track_name :: string
  artists :: "string list"
  album :: spotify_album
  external_urls_spotify :: string

record spotify_currently_playing =
  is_playing :: bool
  item :: "spotify_track option"

text \<open>
  The body of the recently-played response is untyped in the source; the code reads
  \<open>data.items\<close> (which may be missing), its length and \<open>data.items[0].track\<close>.
\<close>

record play_history =
  track :: "spotify_track option"

record recently_played_data =
  items :: "play_history list option"

text \<open>
  What \<open>await fetch(...)\<close> gives: the promise rejects (a request-level exception), or it
  resolves to a response with a status and a body; \<open>json\<close> is \<open>None\<close> when
  \<open>response.json()\<close> rejects.
\<close>

record 'a response =
  status :: nat
  json :: "'a option"

datatype 'a fetch_result = Rejected | Resolved "'a response"

definition ok :: "'a response \<Rightarrow> bool" where
  "ok r = (200 \<le> status r \<and> status r \<le> 299)"

text \<open>
  The music service, as the code sees it: the answer of each of the two endpoints to a
  request with a given \<open>Authorization\<close> header.
\<close>

record service =
  currently_playing :: "string \<Rightarrow> spotify_currently_playing fetch_result"
  recently_played :: "string \<Rightarrow> recently_played_data fetch_result"

text \<open>Every effect of the component is recorded, in order, in the state.\<close>

datatype event =
    SetIsLoading bool
  | SetCurrentTrack "spotify_track option"
  | SetIsPlaying bool
  | SetIsAuthenticated bool
  | SetItem string string
  | RemoveItem string
  | SetHash string
  | Fetch string string
  | ConsoleError

record frame_state =
  localStorage :: "string \<Rightarrow> string option"
  location_hash :: string
  currentTrack :: "spotify_track option"
  isPlaying :: bool
  isLoading :: bool
  isAuthenticated :: bool
  events :: "event list"

definition token_key :: string where
  "token_key = ''spotify_access_token''"

definition currently_playing_url :: string where
  "currently_playing_url = ''https://api.spotify.com/v1/me/player/currently-playing''"

definition recently_played_url :: string where
  "recently_played_url = ''https://api.spotify.com/v1/me/player/recently-played?limit=1''"

definition bearer :: "string \<Rightarrow> string" where
  "bearer token = ''Bearer '' @ token"

section \<open>The state setters and the browser calls\<close>

definition emit :: "event \<Rightarrow> frame_state \<Rightarrow> frame_state" where
  "emit e s = s\<lparr>events := events s @ [e]\<rparr>"

definition setIsLoading :: "bool \<Rightarrow> frame_state \<Rightarrow> frame_state" where
  "setIsLoading b s = emit (SetIsLoading b) (s\<lparr>isLoading := b\<rparr>)"

definition setCurrentTrack :: "spotify_track option \<Rightarrow> frame_state \<Rightarrow> frame_state" where
  "setCurrentTrack t s = emit (SetCurrentTrack t) (s\<lparr>currentTrack := t\<rparr>)"

definition setIsPlaying :: "bool \<Rightarrow> frame_state \<Rightarrow> frame_state" where
  "setIsPlaying b s = emit (SetIsPlaying b) (s\<lparr>isPlaying := b\<rparr>)"

definition setIsAuthenticated :: "bool \<Rightarrow> frame_state \<Rightarrow> frame_state" where
  "setIsAuthenticated b s = emit (SetIsAuthenticated b) (s\<lparr>isAuthenticated := b\<rparr>)"

definition getItem :: "string \<Rightarrow> frame_state \<Rightarrow> string option" where
  "getItem k s = localStorage s k"

definition setItem :: "string \<Rightarrow> string \<Rightarrow> frame_state \<Rightarrow> frame_state" where
  "setItem k v s = emit (SetItem k v) (s\<lparr>localStorage := (localStorage s)(k \<mapsto> v)\<rparr>)"

definition removeItem :: "string \<Rightarrow> frame_state \<Rightarrow> frame_state" where
  "removeItem k s = emit (RemoveItem k) (s\<lparr>localStorage := (localStorage s)(k := None)\<rparr>)"

definition setHash :: "string \<Rightarrow> frame_state \<Rightarrow> frame_state" where
  "setHash h s = emit (SetHash h) (s\<lparr>location_hash := h\<rparr>)"

section \<open>\<open>fetchNowPlaying\<close>\<close>

text \<open>
  How the \<open>try\<close> block ends: it runs to its end, it leaves through the early
  \<open>return\<close>, or an awaited promise rejects. The state changes made before a rejection stay.
\<close>

datatype completion = Normal | Returned | Thrown

text \<open>The branch for status 204 (source lines 150 to 164).\<close>

definition recentlyPlayedFallback ::
  "service \<Rightarrow> string \<Rightarrow> frame_state \<Rightarrow> completion \<times> frame_state" where
  "recentlyPlayedFallback svc token s =
     (let s1 = emit (Fetch recently_played_url (bearer token)) s in
      case recently_played svc (bearer token) of
        Rejected \<Rightarrow> (Thrown, s1)
      | Resolved recentlyPlayed \<Rightarrow>
          if ok recentlyPlayed then
            (case json recentlyPlayed of
               None \<Rightarrow> (Thrown, s1)
             | Some data \<Rightarrow>
                 (case items data of
                    None \<Rightarrow> (Normal, s1)
                  | Some [] \<Rightarrow> (Normal, s1)
                  | Some (first # rest) \<Rightarrow>
                      (Normal, setIsPlaying False (setCurrentTrack (track first) s1))))
          else (Normal, s1))"

text \<open>
  The \<open>try\<close> block (source lines 136 to 173). \<open>!token\<close> holds for \<open>null\<close> and for the
  empty string.
\<close>

definition tryBlock :: "service \<Rightarrow> frame_state \<Rightarrow> completion \<times> frame_state" where
  "tryBlock svc s =
     (case getItem token_key s of
        None \<Rightarrow> (Returned, setIsLoading False s)
      | Some token \<Rightarrow>
          if token = [] then (Returned, setIsLoading False s)
          else
            (let s1 = emit (Fetch currently_playing_url (bearer token)) s in
             case currently_playing svc (bearer token) of
               Rejected \<Rightarrow> (Thrown, s1)
             | Resolved response \<Rightarrow>
                 if status response = 204 then recentlyPlayedFallback svc token s1
                 else if ok response then
                   (case json response of
                      None \<Rightarrow> (Thrown, s1)
                    | Some data \<Rightarrow>
                        (Normal, setIsPlaying (is_playing data) (setCurrentTrack (item data) s1)))
                 else if status response = 401 then
                   (Normal, setIsAuthenticated False (removeItem token_key s1))
                 else (Normal, s1)))"

text \<open>The whole callback: \<open>try\<close>, \<open>catch\<close> (which only logs) and \<open>finally\<close>.\<close>

definition fetchNowPlaying :: "service \<Rightarrow> frame_state \<Rightarrow> frame_state" where
  "fetchNowPlaying svc s =
     (case tryBlock svc (setIsLoading True s) of
        (Thrown, s1) \<Rightarrow> setIsLoading False (emit ConsoleError s1)
      | (c, s1) \<Rightarrow> setIsLoading False s1)"

text \<open>The effects of one call, and the requests among them.\<close>

definition emitted :: "service \<Rightarrow> frame_state \<Rightarrow> event list" where
  "emitted svc s = drop (length (events s)) (events (fetchNowPlaying svc s))"

fun requests :: "event list \<Rightarrow> (string \<times> string) list" where
  "requests [] = []"
| "requests (Fetch url auth # es) = (url, auth) # requests es"
| "requests (e # es) = requests es"

fun loading_flags :: "event list \<Rightarrow> bool list" where
  "loading_flags [] = []"
| "loading_flags (SetIsLoading b # es) = b # loading_flags es"
| "loading_flags (e # es) = loading_flags es"

section \<open>The redirect fragment\<close>

text \<open>
  \<open>new URLSearchParams(init).get(name)\<close> is the browser's, not the repository's. It is
  modelled after the URL standard: a leading \<open>?\<close> of \<open>init\<close> is dropped, the rest is split
  at \<open>&\<close>, empty pieces are skipped, each piece is split at its first \<open>=\<close> (the value is
  empty when there is none), \<open>+\<close> becomes a space, percent escapes are decoded, and
  \<open>get\<close> returns the value of the first pair with the given name. Strings are byte
  strings here; the standard's replacement of malformed UTF-8 is not modelled.
\<close>

fun split_on :: "char \<Rightarrow> string \<Rightarrow> string list" where
  "split_on c [] = [[]]"
| "split_on c (x # xs) =
     (if x = c then [] # split_on c xs
      else (case split_on c xs of [] \<Rightarrow> [[x]] | p # ps \<Rightarrow> (x # p) # ps))"

definition hex_value :: "char \<Rightarrow> nat option" where
  "hex_value c =
     (let n = (of_char c :: nat) in
      if 48 \<le> n \<and> n \<le> 57 then Some (n - 48)
      else if 65 \<le> n \<and> n \<le> 70 then Some (n - 55)
      else if 97 \<le> n \<and> n \<le> 102 then Some (n - 87)
      else None)"

fun percent_decode :: "string \<Rightarrow> string" where
  "percent_decode [] = []"
| "percent_decode (c # rest) =
     (if c = CHR ''%'' then
        (case rest of
           h # l # rest' \<Rightarrow>
             (case (hex_value h, hex_value l) of
                (Some a, Some b) \<Rightarrow> char_of (16 * a + b) # percent_decode rest'
              | _ \<Rightarrow> c # percent_decode rest)
         | _ \<Rightarrow> c # percent_decode rest)
      else c # percent_decode rest)"

definition plus_to_space :: "string \<Rightarrow> string" where
  "plus_to_space bs = map (\<lambda>b. if b = CHR ''+'' then CHR '' '' else b) bs"

definition parse_pair :: "string \<Rightarrow> string \<times> string" where
  "parse_pair bs =
     (let name = takeWhile (\<lambda>b. b \<noteq> CHR ''='') bs;
          val = drop 1 (dropWhile (\<lambda>b. b \<noteq> CHR ''='') bs)
      in (percent_decode (plus_to_space name), percent_decode (plus_to_space val)))"

definition URLSearchParams :: "string \<Rightarrow> (string \<times> string) list" where
  "URLSearchParams init =
     (let input = (case init of c # cs \<Rightarrow> if c = CHR ''?'' then cs else init | [] \<Rightarrow> init)
      in map parse_pair (filter (\<lambda>bs. bs \<noteq> []) (split_on CHR ''&'' input)))"

definition params_get :: "(string \<times> string) list \<Rightarrow> string \<Rightarrow> string option" where
  "params_get params name = map_of params name"

text \<open>
  The effect that handles the authorisation callback (source lines 182 to 194).
  \<open>window.location.hash\<close> is empty or starts with \<open>#\<close>; \<open>if (hash)\<close> and \<open>if (token)\<close>
  fail on the empty string. \<open>acceptToken\<close> is lines 188 to 190.
\<close>

definition acceptToken :: "string \<Rightarrow> frame_state \<Rightarrow> frame_state" where
  "acceptToken token s = setHash [] (setIsAuthenticated True (setItem token_key token s))"

definition handleAuthCallback :: "service \<Rightarrow> frame_state \<Rightarrow> frame_state" where
  "handleAuthCallback svc s =
     (let hash = location_hash s in
      if hash \<noteq> [] then
        (case params_get (URLSearchParams (drop 1 hash)) ''access_token'' of
           None \<Rightarrow> s
         | Some token \<Rightarrow>
             if token \<noteq> [] then fetchNowPlaying svc (acceptToken token s) else s)
      else s)"

section \<open>Concrete states and services\<close>

text \<open>
  The component as first rendered (the \<open>useState\<close> defaults), with a given content of the
  credential slot and a given fragment.
\<close>

definition mounted :: "string option \<Rightarrow> string \<Rightarrow> frame_state" where
  "mounted stored hash =
     \<lparr>localStorage = (\<lambda>k. if k = token_key then stored else None),
      location_hash = hash,
      currentTrack = None, isPlaying = False, isLoading = False, isAuthenticated = False,
      events = []\<rparr>"

definition song_a :: spotify_track where
  "song_a = \<lparr>track_id = ''t1'', track_name = ''Song A'', artists = [''Artist A''],
     album = \<lparr>album_name = ''Album A'', images = [''http://x/a.jpg'']\<rparr>,
     external_urls_spotify = ''http://open/a''\<rparr>"

definition song_b :: spotify_track where
  "song_b = \<lparr>track_id = ''t2'', track_name = ''Song B'', artists = [''Artist B''],
     album = \<lparr>album_name = ''Album B'', images = []\<rparr>,
     external_urls_spotify = ''http://open/b''\<rparr>"

text \<open>A service that gives the same two answers whatever the credential.\<close>

definition answering ::
  "spotify_currently_playing fetch_result \<Rightarrow> recently_played_data fetch_result \<Rightarrow> service" where
  "answering cp rp = \<lparr>currently_playing = (\<lambda>auth. cp), recently_played = (\<lambda>auth. rp)\<rparr>"

definition listening_to :: "bool \<Rightarrow> spotify_track option \<Rightarrow> spotify_currently_playing fetch_result" where
  "listening_to playing t = Resolved \<lparr>status = 200, json = Some \<lparr>is_playing = playing, item = t\<rparr>\<rparr>"

definition bare :: "nat \<Rightarrow> 'a fetch_result" where
  "bare code = Resolved \<lparr>status = code, json = None\<rparr>"

definition history :: "spotify_track list \<Rightarrow> recently_played_data fetch_result" where
  "history ts =
     Resolved \<lparr>status = 200, json = Some \<lparr>items = Some (map (\<lambda>t. \<lparr>track = Some t\<rparr>) ts)\<rparr>\<rparr>"

section \<open>Properties of \<open>fetchNowPlaying\<close>\<close>

lemmas setter_defs = setIsLoading_def setCurrentTrack_def setIsPlaying_def
  setIsAuthenticated_def getItem_def setItem_def removeItem_def setHash_def emit_def

lemmas fetch_defs = fetchNowPlaying_def tryBlock_def recentlyPlayedFallback_def Let_def

lemmas example_defs = mounted_def answering_def listening_to_def bare_def history_def
  token_key_def bearer_def ok_def

lemma events_fetchNowPlaying: "events (fetchNowPlaying svc s) = events s @ emitted svc s"
  by (simp add: emitted_def fetch_defs setter_defs
      split: option.splits fetch_result.splits list.splits)

text \<open>
  Claim C1, as the code has it: with a stored non-empty token, when the currently-playing
  request resolves to a success response other than 204 (so in particular 200) whose body
  parses, the track becomes the payload's item and \<open>isPlaying\<close> becomes the payload's
  \<open>is_playing\<close> flag (line 168), which need not be true.
\<close>

theorem playing_sets_track_and_flag:
  assumes "getItem token_key s = Some tok" and "tok \<noteq> []"
    and "currently_playing svc (bearer tok) = Resolved r"
    and "ok r" and "status r \<noteq> 204" and "json r = Some d"
  shows "currentTrack (fetchNowPlaying svc s) = item d \<and>
         isPlaying (fetchNowPlaying svc s) = is_playing d"
  using assms by (simp add: fetch_defs setter_defs)

theorem playing_sets_track_and_flag_witness:
  "currentTrack (fetchNowPlaying (answering (listening_to True (Some song_a)) Rejected)
       (mounted (Some ''tok1'') [])) = Some song_a \<and>
   isPlaying (fetchNowPlaying (answering (listening_to True (Some song_a)) Rejected)
       (mounted (Some ''tok1'') []))"
  using playing_sets_track_and_flag [of "mounted (Some ''tok1'') []" "''tok1''"
      "answering (listening_to True (Some song_a)) Rejected"
      "\<lparr>status = 200, json = Some \<lparr>is_playing = True, item = Some song_a\<rparr>\<rparr>"
      "\<lparr>is_playing = True, item = Some song_a\<rparr>"]
  by (simp add: example_defs getItem_def)

text \<open>
  Claim C1 as written says \<open>isPlaying\<close> is set to true. A 200 response whose payload has an
  item and \<open>is_playing = false\<close> (a paused player) leaves \<open>isPlaying\<close> false.
\<close>

theorem paused_payload_counterexample:
  "currently_playing (answering (listening_to False (Some song_a)) Rejected) (bearer ''tok1'') =
     Resolved \<lparr>status = 200, json = Some \<lparr>is_playing = False, item = Some song_a\<rparr>\<rparr> \<and>
   getItem token_key (mounted (Some ''tok1'') []) = Some ''tok1'' \<and>
   \<not> isPlaying (fetchNowPlaying (answering (listening_to False (Some song_a)) Rejected)
       (mounted (Some ''tok1'') []))"
  by (simp add: example_defs fetch_defs setter_defs)


text \<open>
  Claim C2, as the code has it: a success response whose payload item is null sets the
  track to null and \<open>isPlaying\<close> to the payload's flag (lines 167 and 168, which have no
  guard on the item); both updates are emitted. The credential and \<open>isAuthenticated\<close> stay.
\<close>

theorem null_item_clears_track:
  assumes "getItem token_key s = Some tok" and "tok \<noteq> []"
    and "currently_playing svc (bearer tok) = Resolved r"
    and "ok r" and "status r \<noteq> 204" and "json r = Some d" and "item d = None"
  shows "currentTrack (fetchNowPlaying svc s) = None \<and>
         isPlaying (fetchNowPlaying svc s) = is_playing d \<and>
         isAuthenticated (fetchNowPlaying svc s) = isAuthenticated s \<and>
         localStorage (fetchNowPlaying svc s) = localStorage s \<and>
         emitted svc s =
           [SetIsLoading True, Fetch currently_playing_url (bearer tok),
            SetCurrentTrack None, SetIsPlaying (is_playing d), SetIsLoading False]"
  using assms by (simp add: emitted_def fetch_defs setter_defs)

theorem null_item_clears_track_witness:
  "getItem token_key ((mounted (Some ''tok1'') [])\<lparr>currentTrack := Some song_a\<rparr>) = Some ''tok1'' \<and>
   currentTrack (fetchNowPlaying (answering (listening_to False None) Rejected)
       ((mounted (Some ''tok1'') [])\<lparr>currentTrack := Some song_a\<rparr>)) = None \<and>
   \<not> isPlaying (fetchNowPlaying (answering (listening_to False None) Rejected)
       ((mounted (Some ''tok1'') [])\<lparr>currentTrack := Some song_a\<rparr>))"
  using null_item_clears_track [of "(mounted (Some ''tok1'') [])\<lparr>currentTrack := Some song_a\<rparr>"
      "''tok1''" "answering (listening_to False None) Rejected"
      "\<lparr>status = 200, json = Some \<lparr>is_playing = False, item = None\<rparr>\<rparr>"
      "\<lparr>is_playing = False, item = None\<rparr>"]
  by (simp add: example_defs getItem_def)

text \<open>
  Claim C2 as written says the playback state is left unchanged and no update is emitted.
  With a track on display, a 200 response with a null item replaces it by null.
\<close>

theorem null_item_counterexample:
  "currently_playing (answering (listening_to False None) Rejected) (bearer ''tok1'') =
     Resolved \<lparr>status = 200, json = Some \<lparr>is_playing = False, item = None\<rparr>\<rparr> \<and>
   currentTrack ((mounted (Some ''tok1'') [])\<lparr>currentTrack := Some song_a\<rparr>) = Some song_a \<and>
   currentTrack (fetchNowPlaying (answering (listening_to False None) Rejected)
       ((mounted (Some ''tok1'') [])\<lparr>currentTrack := Some song_a\<rparr>)) = None \<and>
   SetCurrentTrack None \<in> set (emitted (answering (listening_to False None) Rejected)
       ((mounted (Some ''tok1'') [])\<lparr>currentTrack := Some song_a\<rparr>))"
  by (simp add: example_defs emitted_def fetch_defs setter_defs)

text \<open>
  Claim C3: with a stored non-empty token, a 401 answer to the currently-playing request
  removes the credential (a read afterwards gives nothing), sets \<open>isAuthenticated\<close> to
  false and leaves track and \<open>isPlaying\<close> as they were. The last conjunct is the round
  trip: write the token to any state, fetch, read.
\<close>

theorem unauthorized_clears_credential:
  assumes "getItem token_key s = Some tok" and "tok \<noteq> []"
    and "currently_playing svc (bearer tok) = Resolved r" and "status r = 401"
  shows "getItem token_key (fetchNowPlaying svc s) = None \<and>
         \<not> isAuthenticated (fetchNowPlaying svc s) \<and>
         currentTrack (fetchNowPlaying svc s) = currentTrack s \<and>
         isPlaying (fetchNowPlaying svc s) = isPlaying s \<and>
         getItem token_key (fetchNowPlaying svc (setItem token_key tok s0)) = None"
  using assms by (simp add: fetch_defs setter_defs ok_def)

theorem unauthorized_clears_credential_witness:
  "getItem token_key (setItem token_key ''tok1'' (mounted None [])) = Some ''tok1'' \<and>
   getItem token_key (fetchNowPlaying (answering (bare 401) Rejected)
       (setItem token_key ''tok1'' (mounted None []))) = None \<and>
   \<not> isAuthenticated (fetchNowPlaying (answering (bare 401) Rejected)
       (setItem token_key ''tok1'' (mounted None [])))"
  using unauthorized_clears_credential [of "setItem token_key ''tok1'' (mounted None [])" "''tok1''"
      "answering (bare 401) Rejected" "\<lparr>status = 401, json = None\<rparr>" "mounted None []"]
  by (simp add: example_defs getItem_def setItem_def emit_def)

text \<open>
  Claim C4: with a stored non-empty token, when the currently-playing request answers 204
  and the recently-played request answers with a success response whose \<open>items\<close> is a
  non-empty list, the track becomes the first entry's track and \<open>isPlaying\<close> is false.
\<close>

theorem fallback_sets_recent_track:
  assumes "getItem token_key s = Some tok" and "tok \<noteq> []"
    and "currently_playing svc (bearer tok) = Resolved r" and "status r = 204"
    and "recently_played svc (bearer tok) = Resolved r'" and "ok r'"
    and "json r' = Some d" and "items d = Some (e # es)"
  shows "currentTrack (fetchNowPlaying svc s) = track e \<and>
         \<not> isPlaying (fetchNowPlaying svc s)"
  using assms by (simp add: fetch_defs setter_defs)

theorem fallback_sets_recent_track_witness:
  "getItem token_key (mounted (Some ''tok1'') []) = Some ''tok1'' \<and>
   currentTrack (fetchNowPlaying (answering (bare 204) (history [song_b, song_a]))
       (mounted (Some ''tok1'') [])) = Some song_b \<and>
   \<not> isPlaying (fetchNowPlaying (answering (bare 204) (history [song_b, song_a]))
       (mounted (Some ''tok1'') []))"
  using fallback_sets_recent_track [of "mounted (Some ''tok1'') []" "''tok1''"
      "answering (bare 204) (history [song_b, song_a])" "\<lparr>status = 204, json = None\<rparr>"
      "\<lparr>status = 200, json = Some \<lparr>items = Some [\<lparr>track = Some song_b\<rparr>, \<lparr>track = Some song_a\<rparr>]\<rparr>\<rparr>"
      "\<lparr>items = Some [\<lparr>track = Some song_b\<rparr>, \<lparr>track = Some song_a\<rparr>]\<rparr>"
      "\<lparr>track = Some song_b\<rparr>" "[\<lparr>track = Some song_a\<rparr>]"]
  by (simp add: example_defs getItem_def)

text \<open>
  Claim C5: one call of \<open>fetchNowPlaying\<close> issues the recently-played request if and only
  if a currently-playing request was made (a non-empty token is stored) and answered with
  status 204. So a rejected request, a 401 and any other status never lead to it.
\<close>

theorem fallback_only_on_no_content:
  "recently_played_url \<in> fst ` set (requests (emitted svc s)) \<longleftrightarrow>
     (\<exists>tok r. getItem token_key s = Some tok \<and> tok \<noteq> [] \<and>
        currently_playing svc (bearer tok) = Resolved r \<and> status r = 204)"
  by (auto simp add: emitted_def fetch_defs setter_defs
      currently_playing_url_def recently_played_url_def
      split: option.splits fetch_result.splits list.splits)

text \<open>
  The same at four services: the fallback request follows a 204, and does not follow a
  401, a 500 or a rejected request.
\<close>

theorem fallback_only_on_no_content_witness:
  "recently_played_url \<in> fst ` set (requests (emitted (answering (bare 204) (history []))
       (mounted (Some ''tok1'') []))) \<and>
   recently_played_url \<notin> fst ` set (requests (emitted (answering (bare 401) (history [song_b]))
       (mounted (Some ''tok1'') []))) \<and>
   recently_played_url \<notin> fst ` set (requests (emitted (answering (bare 500) (history [song_b]))
       (mounted (Some ''tok1'') []))) \<and>
   recently_played_url \<notin> fst ` set (requests (emitted (answering Rejected (history [song_b]))
       (mounted (Some ''tok1'') [])))"
  using fallback_only_on_no_content [of "answering (bare 204) (history [])" "mounted (Some ''tok1'') []"]
    fallback_only_on_no_content [of "answering (bare 401) (history [song_b])" "mounted (Some ''tok1'') []"]
    fallback_only_on_no_content [of "answering (bare 500) (history [song_b])" "mounted (Some ''tok1'') []"]
    fallback_only_on_no_content [of "answering Rejected (history [song_b])" "mounted (Some ''tok1'') []"]
  by (simp add: example_defs getItem_def)

text \<open>
  Claim C6: when the currently-playing request answers 204 and the recently-played request
  answers with a success response that has no items (the list is missing or empty), track
  and \<open>isPlaying\<close> are as before, and the call's only effects are the loading flag and
  the two requests.
\<close>

theorem empty_history_leaves_state:
  assumes "getItem token_key s = Some tok" and "tok \<noteq> []"
    and "currently_playing svc (bearer tok) = Resolved r" and "status r = 204"
    and "recently_played svc (bearer tok) = Resolved r'" and "ok r'"
    and "json r' = Some d" and "items d = None \<or> items d = Some []"
  shows "currentTrack (fetchNowPlaying svc s) = currentTrack s \<and>
         isPlaying (fetchNowPlaying svc s) = isPlaying s \<and>
         emitted svc s =
           [SetIsLoading True, Fetch currently_playing_url (bearer tok),
            Fetch recently_played_url (bearer tok), SetIsLoading False]"
  using assms by (auto simp add: emitted_def fetch_defs setter_defs)

theorem empty_history_leaves_state_witness:
  "getItem token_key ((mounted (Some ''tok1'') [])\<lparr>currentTrack := Some song_a, isPlaying := True\<rparr>)
     = Some ''tok1'' \<and>
   currentTrack (fetchNowPlaying (answering (bare 204) (history []))
       ((mounted (Some ''tok1'') [])\<lparr>currentTrack := Some song_a, isPlaying := True\<rparr>)) = Some song_a \<and>
   isPlaying (fetchNowPlaying (answering (bare 204) (history []))
       ((mounted (Some ''tok1'') [])\<lparr>currentTrack := Some song_a, isPlaying := True\<rparr>))"
  using empty_history_leaves_state
      [of "(mounted (Some ''tok1'') [])\<lparr>currentTrack := Some song_a, isPlaying := True\<rparr>" "''tok1''"
      "answering (bare 204) (history [])" "\<lparr>status = 204, json = None\<rparr>"
      "\<lparr>status = 200, json = Some \<lparr>items = Some []\<rparr>\<rparr>" "\<lparr>items = Some []\<rparr>"]
  by (simp add: example_defs getItem_def)

text \<open>
  Claim C7: with a stored non-empty token, when the currently-playing request is rejected,
  or answers with a non-success status other than 401 (no such status is 204), or answers
  with a success status other than 204 and a body that does not parse, or answers 204 and
  the fallback request is rejected or answers with a success status and a body that does
  not parse, then track, \<open>isPlaying\<close>, \<open>isAuthenticated\<close> and the credential store are
  as before, and each request was issued once: the currently-playing one, and after a 204
  the recently-played one.
\<close>

theorem transient_failure_changes_nothing:
  assumes "getItem token_key s = Some tok" and "tok \<noteq> []"
    and "currently_playing svc (bearer tok) = Rejected \<or>
         (\<exists>r. currently_playing svc (bearer tok) = Resolved r \<and>
            ((\<not> ok r \<and> status r \<noteq> 401) \<or>
             (ok r \<and> status r \<noteq> 204 \<and> json r = None) \<or>
             (status r = 204 \<and>
                (recently_played svc (bearer tok) = Rejected \<or>
                 (\<exists>r'. recently_played svc (bearer tok) = Resolved r' \<and>
                    ok r' \<and> json r' = None)))))"
  shows "currentTrack (fetchNowPlaying svc s) = currentTrack s \<and>
         isPlaying (fetchNowPlaying svc s) = isPlaying s \<and>
         isAuthenticated (fetchNowPlaying svc s) = isAuthenticated s \<and>
         localStorage (fetchNowPlaying svc s) = localStorage s \<and>
         requests (emitted svc s) =
           (currently_playing_url, bearer tok) #
           (case currently_playing svc (bearer tok) of
              Rejected \<Rightarrow> []
            | Resolved r \<Rightarrow> if status r = 204 then [(recently_played_url, bearer tok)] else [])"
  using assms by (auto simp add: emitted_def fetch_defs setter_defs ok_def)

theorem transient_failure_changes_nothing_witness:
  "getItem token_key ((mounted (Some ''tok1'') [])\<lparr>currentTrack := Some song_a, isPlaying := True,
       isAuthenticated := True\<rparr>) = Some ''tok1'' \<and>
   currentTrack (fetchNowPlaying (answering (bare 500) (history [song_b]))
       ((mounted (Some ''tok1'') [])\<lparr>currentTrack := Some song_a, isPlaying := True,
          isAuthenticated := True\<rparr>)) = Some song_a \<and>
   isAuthenticated (fetchNowPlaying (answering (bare 500) (history [song_b]))
       ((mounted (Some ''tok1'') [])\<lparr>currentTrack := Some song_a, isPlaying := True,
          isAuthenticated := True\<rparr>)) \<and>
   localStorage (fetchNowPlaying (answering Rejected (history [song_b]))
       (mounted (Some ''tok1'') [])) token_key = Some ''tok1'' \<and>
   requests (emitted (answering Rejected (history [song_b])) (mounted (Some ''tok1'') [])) =
     [(currently_playing_url, ''Bearer tok1'')] \<and>
   requests (emitted (answering (bare 204) Rejected) (mounted (Some ''tok1'') [])) =
     [(currently_playing_url, ''Bearer tok1''), (recently_played_url, ''Bearer tok1'')] \<and>
   localStorage (fetchNowPlaying (answering (bare 200) (history [song_b]))
       ((mounted (Some ''tok1'') [])\<lparr>currentTrack := Some song_a, isPlaying := True,
          isAuthenticated := True\<rparr>)) token_key = Some ''tok1'' \<and>
   isAuthenticated (fetchNowPlaying (answering (bare 200) (history [song_b]))
       ((mounted (Some ''tok1'') [])\<lparr>currentTrack := Some song_a, isPlaying := True,
          isAuthenticated := True\<rparr>)) \<and>
   currentTrack (fetchNowPlaying (answering (bare 204) (bare 200))
       ((mounted (Some ''tok1'') [])\<lparr>currentTrack := Some song_a, isPlaying := True,
          isAuthenticated := True\<rparr>)) = Some song_a \<and>
   isPlaying (fetchNowPlaying (answering (bare 204) (bare 200))
       ((mounted (Some ''tok1'') [])\<lparr>currentTrack := Some song_a, isPlaying := True,
          isAuthenticated := True\<rparr>))"
  using transient_failure_changes_nothing
      [of "(mounted (Some ''tok1'') [])\<lparr>currentTrack := Some song_a, isPlaying := True,
          isAuthenticated := True\<rparr>" "''tok1''" "answering (bare 500) (history [song_b])"]
    transient_failure_changes_nothing
      [of "mounted (Some ''tok1'') []" "''tok1''" "answering Rejected (history [song_b])"]
    transient_failure_changes_nothing
      [of "mounted (Some ''tok1'') []" "''tok1''" "answering (bare 204) Rejected"]
    transient_failure_changes_nothing
      [of "(mounted (Some ''tok1'') [])\<lparr>currentTrack := Some song_a, isPlaying := True,
          isAuthenticated := True\<rparr>" "''tok1''" "answering (bare 200) (history [song_b])"]
    transient_failure_changes_nothing
      [of "(mounted (Some ''tok1'') [])\<lparr>currentTrack := Some song_a, isPlaying := True,
          isAuthenticated := True\<rparr>" "''tok1''" "answering (bare 204) (bare 200)"]
  by (simp add: example_defs getItem_def)

text \<open>
  Claim C8: on every path, the first effect of a call is \<open>setIsLoading(true)\<close>, the last
  is \<open>setIsLoading(false)\<close>, and the flag is false afterwards. When a request is issued
  the flag is written exactly twice, so every request and every state update of the call
  lies between the two writes; on the path without a token (no request) the flag is reset
  twice, by the guard and by \<open>finally\<close>.
\<close>

theorem loading_flag_brackets_fetch:
  "isLoading (fetchNowPlaying svc s) = False \<and>
   events (fetchNowPlaying svc s) = events s @ emitted svc s \<and>
   hd (emitted svc s) = SetIsLoading True \<and>
   last (emitted svc s) = SetIsLoading False \<and>
   loading_flags (emitted svc s) =
     (if requests (emitted svc s) = [] then [True, False, False] else [True, False])"
  by (simp add: emitted_def fetch_defs setter_defs
      split: option.splits fetch_result.splits list.splits)

text \<open>
  Claim C10: when the currently-playing request answers 204 and the recently-played
  request answers with any non-success status, 401 included, the credential store,
  \<open>isAuthenticated\<close>, track and \<open>isPlaying\<close> are as before, and the call's only effects
  are the loading flag and the two requests.
\<close>

theorem fallback_failure_is_not_expiry:
  assumes "getItem token_key s = Some tok" and "tok \<noteq> []"
    and "currently_playing svc (bearer tok) = Resolved r" and "status r = 204"
    and "recently_played svc (bearer tok) = Resolved r'" and "\<not> ok r'"
  shows "localStorage (fetchNowPlaying svc s) = localStorage s \<and>
         isAuthenticated (fetchNowPlaying svc s) = isAuthenticated s \<and>
         currentTrack (fetchNowPlaying svc s) = currentTrack s \<and>
         isPlaying (fetchNowPlaying svc s) = isPlaying s \<and>
         emitted svc s =
           [SetIsLoading True, Fetch currently_playing_url (bearer tok),
            Fetch recently_played_url (bearer tok), SetIsLoading False]"
  using assms by (simp add: emitted_def fetch_defs setter_defs)

theorem fallback_failure_is_not_expiry_witness:
  "getItem token_key ((mounted (Some ''tok1'') [])\<lparr>isAuthenticated := True\<rparr>) = Some ''tok1'' \<and>
   localStorage (fetchNowPlaying (answering (bare 204) (bare 401))
       ((mounted (Some ''tok1'') [])\<lparr>isAuthenticated := True\<rparr>)) token_key = Some ''tok1'' \<and>
   isAuthenticated (fetchNowPlaying (answering (bare 204) (bare 401))
       ((mounted (Some ''tok1'') [])\<lparr>isAuthenticated := True\<rparr>))"
  using fallback_failure_is_not_expiry
      [of "(mounted (Some ''tok1'') [])\<lparr>isAuthenticated := True\<rparr>" "''tok1''"
       "answering (bare 204) (bare 401)" "\<lparr>status = 204, json = None\<rparr>"
       "\<lparr>status = 401, json = None\<rparr>"]
  by (simp add: example_defs getItem_def)

section \<open>Properties of the authorisation callback\<close>

lemma events_acceptToken:
  "events (acceptToken tok s) =
     events s @ [SetItem token_key tok, SetIsAuthenticated True, SetHash []]"
  by (simp add: acceptToken_def setter_defs)

lemma location_hash_fetchNowPlaying:
  "location_hash (fetchNowPlaying svc s) = location_hash s"
  by (simp add: fetch_defs setter_defs
      split: option.splits fetch_result.splits list.splits)

lemma fetch_starts_with_request:
  assumes "getItem token_key s = Some tok" and "tok \<noteq> []"
  shows "take 2 (emitted svc s) = [SetIsLoading True, Fetch currently_playing_url (bearer tok)]"
  using assms by (simp add: emitted_def fetch_defs setter_defs
      split: option.splits fetch_result.splits list.splits)

text \<open>
  Claim C9, as the code has it: when the fragment is not empty and the first
  \<open>access_token\<close> parameter in it has a non-empty value, the effect stores exactly that
  value in the credential slot, sets \<open>isAuthenticated\<close>, clears the fragment and then
  calls \<open>fetchNowPlaying\<close>, whose first request bears the new token; the fragment is
  still empty when that call is over.
\<close>

theorem redirect_token_is_accepted:
  assumes "location_hash s \<noteq> []"
    and "params_get (URLSearchParams (drop 1 (location_hash s))) ''access_token'' = Some tok"
    and "tok \<noteq> []"
  shows "handleAuthCallback svc s = fetchNowPlaying svc (acceptToken tok s) \<and>
         getItem token_key (acceptToken tok s) = Some tok \<and>
         location_hash (acceptToken tok s) = [] \<and>
         isAuthenticated (acceptToken tok s) \<and>
         location_hash (handleAuthCallback svc s) = [] \<and>
         take 5 (drop (length (events s)) (events (handleAuthCallback svc s))) =
           [SetItem token_key tok, SetIsAuthenticated True, SetHash [],
            SetIsLoading True, Fetch currently_playing_url (bearer tok)]"
proof -
  let ?s' = "acceptToken tok s"
  have run: "handleAuthCallback svc s = fetchNowPlaying svc ?s'"
    using assms by (simp add: handleAuthCallback_def)
  have stored: "getItem token_key ?s' = Some tok"
    by (simp add: acceptToken_def setter_defs)
  have hash: "location_hash ?s' = []" and auth: "isAuthenticated ?s'"
    by (simp_all add: acceptToken_def setter_defs)
  have "events (handleAuthCallback svc s) =
      (events s @ [SetItem token_key tok, SetIsAuthenticated True, SetHash []]) @ emitted svc ?s'"
    by (simp only: run events_fetchNowPlaying events_acceptToken)
  then have "take 5 (drop (length (events s)) (events (handleAuthCallback svc s))) =
      [SetItem token_key tok, SetIsAuthenticated True, SetHash []] @ take 2 (emitted svc ?s')"
    by simp
  also have "take 2 (emitted svc ?s') = [SetIsLoading True, Fetch currently_playing_url (bearer tok)]"
    using stored \<open>tok \<noteq> []\<close> by (rule fetch_starts_with_request)
  finally show ?thesis
    using run stored hash auth by (simp add: location_hash_fetchNowPlaying)
qed

lemma example_fragment:
  "params_get (URLSearchParams (drop 1 ''#access_token=abc123&token_type=Bearer'')) ''access_token''
     = Some ''abc123''"
  by (simp add: params_get_def URLSearchParams_def parse_pair_def plus_to_space_def)

theorem redirect_token_is_accepted_witness:
  "params_get (URLSearchParams (drop 1 ''#access_token=abc123&token_type=Bearer'')) ''access_token''
     = Some ''abc123'' \<and>
   getItem token_key (acceptToken ''abc123'' (mounted None ''#access_token=abc123&token_type=Bearer''))
     = Some ''abc123'' \<and>
   location_hash (handleAuthCallback (answering (listening_to True (Some song_a)) Rejected)
      (mounted None ''#access_token=abc123&token_type=Bearer'')) = [] \<and>
   take 5 (events (handleAuthCallback (answering (listening_to True (Some song_a)) Rejected)
      (mounted None ''#access_token=abc123&token_type=Bearer''))) =
     [SetItem token_key ''abc123'', SetIsAuthenticated True, SetHash [],
      SetIsLoading True, Fetch currently_playing_url ''Bearer abc123'']"
proof -
  let ?s = "mounted None ''#access_token=abc123&token_type=Bearer''"
  let ?svc = "answering (listening_to True (Some song_a)) Rejected"
  have fragment: "location_hash ?s \<noteq> []"
    by (simp add: mounted_def)
  have param: "params_get (URLSearchParams (drop 1 (location_hash ?s))) ''access_token''
      = Some ''abc123''"
    using example_fragment by (simp add: mounted_def)
  have nonempty: "''abc123'' \<noteq> []"
    by simp
  note accepted = redirect_token_is_accepted [OF fragment param nonempty, of ?svc]
  from accepted have stored: "getItem token_key (acceptToken ''abc123'' ?s) = Some ''abc123''"
    by blast
  from accepted have stripped: "location_hash (handleAuthCallback ?svc ?s) = []"
    by blast
  from accepted have "take 5 (drop (length (events ?s)) (events (handleAuthCallback ?svc ?s))) =
      [SetItem token_key ''abc123'', SetIsAuthenticated True, SetHash [],
       SetIsLoading True, Fetch currently_playing_url (bearer ''abc123'')]"
    by blast
  moreover have "events ?s = []"
    by (simp add: mounted_def)
  ultimately have effects: "take 5 (events (handleAuthCallback ?svc ?s)) =
      [SetItem token_key ''abc123'', SetIsAuthenticated True, SetHash [],
       SetIsLoading True, Fetch currently_playing_url ''Bearer abc123'']"
    by (simp add: bearer_def)
  show ?thesis
    using example_fragment stored stripped effects by blast
qed

text \<open>
  Claim C9 as written covers every fragment with an \<open>access_token\<close> parameter. When the
  parameter's value is empty the guard \<open>if (token)\<close> of line 187 fails: nothing is stored,
  the fragment stays, \<open>isAuthenticated\<close> stays false and no fetch is made.
\<close>

theorem empty_token_counterexample:
  "params_get (URLSearchParams (drop 1 ''#access_token=&token_type=Bearer'')) ''access_token''
     = Some [] \<and>
   location_hash (handleAuthCallback (answering (listening_to True (Some song_a)) Rejected)
      (mounted None ''#access_token=&token_type=Bearer'')) = ''#access_token=&token_type=Bearer'' \<and>
   \<not> isAuthenticated (handleAuthCallback (answering (listening_to True (Some song_a)) Rejected)
      (mounted None ''#access_token=&token_type=Bearer'')) \<and>
   events (handleAuthCallback (answering (listening_to True (Some song_a)) Rejected)
      (mounted None ''#access_token=&token_type=Bearer'')) = []"
  by (simp add: handleAuthCallback_def mounted_def params_get_def URLSearchParams_def
      parse_pair_def plus_to_space_def)

end
